theory Spec2Isabelle
  imports Main "HOL-Library.Sublist"
begin

section \<open>Values and records of the library catalogue\<close>

text \<open>
  The application is one JavaScript module (the React components of
  \<^verbatim>\<open>src/eslint.config.js\<close>, after the separator line). Its entity store is the
  component \<^verbatim>\<open>DataProvider\<close>, its navigation state the component \<^verbatim>\<open>App\<close>.

  The primitive values a field of a record, an id or a navigation argument can hold.
  A number is an integer here: every id the program makes is \<^verbatim>\<open>Date.now()\<close>, a count
  of milliseconds. On these values the strict comparison \<^verbatim>\<open>===\<close> of the source is
  equality, and \<^verbatim>\<open>!==\<close> its negation.
\<close>

datatype jsval = Undefined | Null | Bool bool | Num int | Str string

text \<open>What a condition (\<^verbatim>\<open>x ? a : b\<close>, \<^verbatim>\<open>if (x)\<close>) makes of a primitive value.\<close>

fun truthy :: "jsval \<Rightarrow> bool" where
  "truthy Undefined = False"
| "truthy Null = False"
| "truthy (Bool b) = b"
| "truthy (Num n) = (n \<noteq> 0)"
| "truthy (Str s) = (s \<noteq> [])"

text \<open>
  The object \<^verbatim>\<open>{ id, title, author, coverImage, readStatus, notes }\<close> that
  \<^verbatim>\<open>BookForm\<close> builds and the store keeps. The field \<^verbatim>\<open>id\<close> is called
  \<open>book_id\<close>, since \<open>id\<close> is the identity function of HOL, and \<^verbatim>\<open>notes\<close> is
  called \<open>book_notes\<close>, since the other is a keyword. A field that an object read
  from the storage lacks reads as undefined.
\<close>

record book =
  book_id :: jsval
  title :: jsval
  author :: jsval
  coverImage :: jsval
  readStatus :: jsval
  book_notes :: jsval

text \<open>
  The object \<^verbatim>\<open>{ id, name, image, origin, family, summary, backstory, bookId }\<close>
  of \<^verbatim>\<open>CharacterForm\<close>; \<^verbatim>\<open>id\<close>, \<^verbatim>\<open>name\<close> and \<^verbatim>\<open>image\<close> carry the prefix
  \<open>char_\<close>.
\<close>

record character =
  char_id :: jsval
  char_name :: jsval
  char_image :: jsval
  origin :: jsval
  family :: jsval
  summary :: jsval
  backstory :: jsval
  bookId :: jsval

text \<open>
  The two state variables of \<^verbatim>\<open>DataProvider\<close>. Both start as the empty array, the
  load sets them to arrays only, and every updater returns an array, so the test
  \<^verbatim>\<open>Array.isArray(prev)\<close> that guards each updater holds and its other branch is
  never taken: a collection is a list.
\<close>

record store =
  books :: "book list"
  characters :: "character list"

section \<open>The entity store\<close>

subsection \<open>Book functions\<close>

text \<open>
  \<^verbatim>\<open>setBooks(prev => [...prev, { ...book, id: Date.now() }])\<close>. The reading of
  the clock is the argument \<open>now\<close>.
\<close>

definition addBook :: "int \<Rightarrow> book \<Rightarrow> store \<Rightarrow> store" where
  "addBook now book s = s\<lparr>books := books s @ [book\<lparr>book_id := Num now\<rparr>]\<rparr>"

text \<open>\<^verbatim>\<open>setBooks(prev => prev.map(book => book.id === updatedBook.id ? updatedBook : book))\<close>\<close>

definition updateBook :: "book \<Rightarrow> store \<Rightarrow> store" where
  "updateBook updatedBook s =
     s\<lparr>books := map (\<lambda>book. if book_id book = book_id updatedBook then updatedBook else book)
                     (books s)\<rparr>"

text \<open>
  \<^verbatim>\<open>setBooks(prev => prev.filter(book => book.id !== id))\<close>, then
  \<^verbatim>\<open>setCharacters(prev => prev.filter(char => char.bookId !== id))\<close>.
\<close>

definition deleteBook :: "jsval \<Rightarrow> store \<Rightarrow> store" where
  "deleteBook i s =
     s\<lparr>books := filter (\<lambda>book. book_id book \<noteq> i) (books s),
       characters := filter (\<lambda>char. bookId char \<noteq> i) (characters s)\<rparr>"

subsection \<open>Character functions\<close>

definition addCharacter :: "int \<Rightarrow> character \<Rightarrow> store \<Rightarrow> store" where
  "addCharacter now character s =
     s\<lparr>characters := characters s @ [character\<lparr>char_id := Num now\<rparr>]\<rparr>"

definition updateCharacter :: "character \<Rightarrow> store \<Rightarrow> store" where
  "updateCharacter updatedCharacter s =
     s\<lparr>characters :=
         map (\<lambda>char. if char_id char = char_id updatedCharacter then updatedCharacter else char)
             (characters s)\<rparr>"

definition deleteCharacter :: "jsval \<Rightarrow> store \<Rightarrow> store" where
  "deleteCharacter i s = s\<lparr>characters := filter (\<lambda>char. char_id char \<noteq> i) (characters s)\<rparr>"

subsection \<open>Loading the store\<close>

text \<open>
  The effect that runs once when \<^verbatim>\<open>DataProvider\<close> mounts. \<^verbatim>\<open>localStorage.getItem\<close>
  gives a string, or null (\<open>None\<close>) when the key is absent; a condition on it is false
  for null and for the empty string. \<^verbatim>\<open>JSON.parse\<close> belongs to the language, not to
  the program: it is an argument of the model, and either raises or gives a value,
  which \<^verbatim>\<open>Array.isArray\<close> then tells to be an array or not.
\<close>

datatype error = SyntaxError

datatype 'a parsed = NotArray | IsArray "'a list"

type_synonym 'a JSON_parse = "string \<Rightarrow> error + 'a parsed"

text \<open>
  The first statement of the \<^verbatim>\<open>try\<close> block: the store after it, and the exception
  when \<^verbatim>\<open>JSON.parse\<close> raised one.
\<close>

definition load_books :: "book JSON_parse \<Rightarrow> string option \<Rightarrow> store \<Rightarrow> store \<times> error option" where
  "load_books parse storedBooks s =
     (case storedBooks of
        None \<Rightarrow> (s\<lparr>books := []\<rparr>, None)
      | Some str \<Rightarrow>
          if str = [] then (s\<lparr>books := []\<rparr>, None)
          else (case parse str of
                  Inl e \<Rightarrow> (s, Some e)
                | Inr parsedBooks \<Rightarrow>
                    (s\<lparr>books := (case parsedBooks of IsArray xs \<Rightarrow> xs | NotArray \<Rightarrow> [])\<rparr>, None)))"

text \<open>The second statement of the \<^verbatim>\<open>try\<close> block.\<close>

definition load_characters ::
    "character JSON_parse \<Rightarrow> string option \<Rightarrow> store \<Rightarrow> store \<times> error option" where
  "load_characters parse storedCharacters s =
     (case storedCharacters of
        None \<Rightarrow> (s\<lparr>characters := []\<rparr>, None)
      | Some str \<Rightarrow>
          if str = [] then (s\<lparr>characters := []\<rparr>, None)
          else (case parse str of
                  Inl e \<Rightarrow> (s, Some e)
                | Inr parsedChars \<Rightarrow>
                    (s\<lparr>characters := (case parsedChars of IsArray xs \<Rightarrow> xs | NotArray \<Rightarrow> [])\<rparr>,
                     None)))"

text \<open>
  The whole effect. An exception of the \<^verbatim>\<open>try\<close> block ends the block there and runs
  the \<^verbatim>\<open>catch\<close> block, which sets both collections to the empty array. The result is
  \<open>Inr\<close> of the store the effect leaves, or \<open>Inl\<close> of an exception that leaves it.
\<close>

definition DataProvider_load ::
    "book JSON_parse \<Rightarrow> character JSON_parse \<Rightarrow> string option \<Rightarrow> string option \<Rightarrow> store
       \<Rightarrow> error + store" where
  "DataProvider_load parseB parseC storedBooks storedCharacters s =
     (case load_books parseB storedBooks s of
        (s1, Some e) \<Rightarrow> Inr (s1\<lparr>books := [], characters := []\<rparr>)
      | (s1, None) \<Rightarrow>
          (case load_characters parseC storedCharacters s1 of
             (s2, Some e) \<Rightarrow> Inr (s2\<lparr>books := [], characters := []\<rparr>)
           | (s2, None) \<Rightarrow> Inr s2))"

text \<open>The state \<^verbatim>\<open>useState([])\<close> gives both collections before the load.\<close>

definition initial_store :: store where
  "initial_store = \<lparr>books = [], characters = []\<rparr>"

section \<open>The forms\<close>

text \<open>
  The object \<^verbatim>\<open>bookData\<close> that \<^verbatim>\<open>BookForm\<close> submits: \<^verbatim>\<open>existingBook?.id\<close> is
  undefined when there is no existing book, and the other fields are the strings of
  the inputs.
\<close>

definition bookData :: "book option \<Rightarrow> string \<Rightarrow> string \<Rightarrow> string \<Rightarrow> string \<Rightarrow> string \<Rightarrow> book" where
  "bookData existingBook t a c r n =
     \<lparr>book_id = (case existingBook of None \<Rightarrow> Undefined | Some b \<Rightarrow> book_id b),
      title = Str t, author = Str a, coverImage = Str c, readStatus = Str r,
      book_notes = Str n\<rparr>"

text \<open>The object \<^verbatim>\<open>characterData\<close> that \<^verbatim>\<open>CharacterForm\<close> submits for the book \<open>b\<close>.\<close>

definition characterData ::
    "character option \<Rightarrow> string \<Rightarrow> string \<Rightarrow> string \<Rightarrow> string \<Rightarrow> string \<Rightarrow> string \<Rightarrow> jsval
       \<Rightarrow> character" where
  "characterData existingCharacter n i orig f su b bid =
     \<lparr>char_id = (case existingCharacter of None \<Rightarrow> Undefined | Some c \<Rightarrow> char_id c),
      char_name = Str n, char_image = Str i, origin = Str orig, family = Str f,
      summary = Str su, backstory = Str b, bookId = bid\<rparr>"

section \<open>Navigation and rendering\<close>

text \<open>The three state variables of \<^verbatim>\<open>App\<close>; they start as \<open>initial_nav\<close>.\<close>

record nav =
  view :: string
  selectedBookId :: jsval
  selectedCharacterId :: jsval

definition initial_nav :: nav where
  "initial_nav = \<lparr>view = ''books'', selectedBookId = Null, selectedCharacterId = Null\<rparr>"

text \<open>
  A parameter declared \<^verbatim>\<open>x = null\<close> is null when the argument is left out or is
  undefined, and the argument otherwise.
\<close>

definition default_null :: "jsval \<Rightarrow> jsval" where
  "default_null v = (if v = Undefined then Null else v)"

text \<open>\<^verbatim>\<open>navigate = (newView, bookId = null, charId = null) => { ... }\<close>\<close>

definition navigate :: "string \<Rightarrow> jsval \<Rightarrow> jsval \<Rightarrow> nav \<Rightarrow> nav" where
  "navigate newView bookId' charId n =
     n\<lparr>view := newView, selectedBookId := default_null bookId',
       selectedCharacterId := default_null charId\<rparr>"

text \<open>
  What \<^verbatim>\<open>renderView\<close> returns: the component and the properties it is given (but for
  \<^verbatim>\<open>navigate\<close>, which every component gets). \<^verbatim>\<open>BookList\<close> has the filter status and
  the title of the list; a form has the existing record, if any.
\<close>

datatype element =
    BookList jsval string
  | BookForm "book option"
  | BookDetail book "character list"
  | CharacterForm jsval "character option"
  | CharacterDetail character

text \<open>
  \<^verbatim>\<open>renderView\<close>, with the three lookups \<^verbatim>\<open>App\<close> makes before it. \<^verbatim>\<open>find\<close> gives
  the first match or undefined (\<open>None\<close>); an object is true in a condition and
  undefined is false. A \<^verbatim>\<open>BookList\<close> that is not given a filter status has null.
\<close>

definition renderView :: "nav \<Rightarrow> store \<Rightarrow> element" where
  "renderView n s =
     (let selectedBook = find (\<lambda>b. book_id b = selectedBookId n) (books s);
          selectedCharacter = find (\<lambda>c. char_id c = selectedCharacterId n) (characters s);
          charactersForSelectedBook = filter (\<lambda>c. bookId c = selectedBookId n) (characters s)
      in
        if view n = ''wishlist'' then BookList (Str ''To Read'') ''My Wishlist''
        else if view n = ''readBooks'' then BookList (Str ''Read'') ''Books Read''
        else if view n = ''addBook'' then BookForm None
        else if view n = ''editBook'' then
          (case selectedBook of Some b \<Rightarrow> BookForm (Some b) | None \<Rightarrow> BookList Null ''My Books'')
        else if view n = ''viewBook'' then
          (case selectedBook of
             Some b \<Rightarrow> BookDetail b charactersForSelectedBook
           | None \<Rightarrow> BookList Null ''My Books'')
        else if view n = ''addCharacter'' then CharacterForm (selectedBookId n) None
        else if view n = ''editCharacter'' then
          (case selectedCharacter of
             Some c \<Rightarrow> CharacterForm (selectedBookId n) (Some c)
           | None \<Rightarrow> BookList Null ''My Books'')
        else if view n = ''viewCharacter'' then
          (case selectedCharacter of
             Some c \<Rightarrow> CharacterDetail c
           | None \<Rightarrow> BookList Null ''My Books'')
        else BookList Null ''My Books'')"

text \<open>
  The list \<^verbatim>\<open>filteredBooks\<close> that \<^verbatim>\<open>BookList\<close> shows:
  \<^verbatim>\<open>filterStatus ? books.filter(book => book.readStatus === filterStatus) : books\<close>.
\<close>

definition filteredBooks :: "jsval \<Rightarrow> book list \<Rightarrow> book list" where
  "filteredBooks filterStatus bs =
     (if truthy filterStatus then filter (\<lambda>book. readStatus book = filterStatus) bs else bs)"

section \<open>The specification's words\<close>

text \<open>
  Two notions of the specification, written after its words and compared with the code
  below. The first is what a collection \<^emph>\<open>degrades to\<close> at the load: its own
  persisted contents, and the empty collection when the payload is absent (no string,
  or the empty one), fails to parse, or parses to something that is not a list.
\<close>

definition persisted_contents :: "'a JSON_parse \<Rightarrow> string option \<Rightarrow> 'a list" where
  "persisted_contents parse stored =
     (case stored of
        None \<Rightarrow> []
      | Some str \<Rightarrow>
          if str = [] then []
          else (case parse str of
                  Inl e \<Rightarrow> []
                | Inr NotArray \<Rightarrow> []
                | Inr (IsArray xs) \<Rightarrow> xs))"

text \<open>A payload that is present and on which \<^verbatim>\<open>JSON.parse\<close> raises.\<close>

definition parse_raises :: "'a JSON_parse \<Rightarrow> string option \<Rightarrow> bool" where
  "parse_raises parse stored =
     (case stored of None \<Rightarrow> False | Some str \<Rightarrow> str \<noteq> [] \<and> isl (parse str))"

text \<open>
  The second is the \<^verbatim>\<open>bookId ?? none\<close> of the transition contract: the value
  supplied, or none (null) when it is null or undefined.
\<close>

definition or_none :: "jsval \<Rightarrow> jsval" where
  "or_none v = (if v = Undefined \<or> v = Null then Null else v)"

section \<open>Sample records\<close>

text \<open>
  The records of the examples below, as the forms and the store make them: the book
  Dune by Herrick, stored with the id 1; the book Emma, read, stored with the id 2;
  the character Paul of the book 1, stored with the id 4, and the text that
  \<^verbatim>\<open>JSON.stringify\<close> makes of the collection that holds Paul alone.
\<close>

abbreviation dune :: book where
  "dune \<equiv> (bookData None ''Dune'' ''Herrick'' [] [] [])\<lparr>book_id := Num 1\<rparr>"

abbreviation emma :: book where
  "emma \<equiv> (bookData None ''Emma'' ''Austen'' [] ''Read'' [])\<lparr>book_id := Num 2\<rparr>"

abbreviation paul :: character where
  "paul \<equiv> (characterData None ''Paul'' [] [] [] [] [] (Num 1))\<lparr>char_id := Num 4\<rparr>"

abbreviation paul_json :: string where
  \<open>paul_json \<equiv>
     ''[{"id":4,"name":"Paul","image":"","origin":"","family":"","summary":"","backstory":"","bookId":1}]''\<close>

section \<open>Facts about lists\<close>

lemma find_snoc_fresh:
  "(\<forall>x \<in> set xs. \<not> P x) \<Longrightarrow> P y \<Longrightarrow> find P (xs @ [y]) = Some y"
  by (induction xs) auto

lemma find_absent: "(\<forall>x \<in> set xs. \<not> P x) \<Longrightarrow> find P xs = None"
  by (simp add: find_None_iff)

lemma map_replace_absent:
  "(\<forall>x \<in> set xs. f x \<noteq> k) \<Longrightarrow> map (\<lambda>x. if f x = k then u else x) xs = xs"
  by (induction xs) auto

lemma map_replace_key:
  "map f (map (\<lambda>x. if f x = f u then u else x) xs) = map f xs"
  by (induction xs) auto

lemma filter_replace_others:
  "filter (\<lambda>x. f x \<noteq> f u) (map (\<lambda>x. if f x = f u then u else x) xs)
     = filter (\<lambda>x. f x \<noteq> f u) xs"
  by (induction xs) auto

section \<open>Deleting a book\<close>

lemma deleteBook_books: "books (deleteBook B s) = filter (\<lambda>b. book_id b \<noteq> B) (books s)"
  by (simp add: deleteBook_def)

lemma deleteBook_characters:
  "characters (deleteBook B s) = filter (\<lambda>c. bookId c \<noteq> B) (characters s)"
  by (simp add: deleteBook_def)

text \<open>
  Claim C1. After \<open>deleteBook B\<close> no book has the id \<open>B\<close> and no character has
  the bookId \<open>B\<close>; the books and characters that remain are exactly the former ones
  with another id (bookId), in their former order; and when no book has the id \<open>B\<close>
  the book collection is the one before. The function is total: nothing is raised.
\<close>

theorem deleteBook_cascade:
  "(\<forall>b \<in> set (books (deleteBook B s)). book_id b \<noteq> B)
   \<and> (\<forall>c \<in> set (characters (deleteBook B s)). bookId c \<noteq> B)
   \<and> set (books (deleteBook B s)) = {b \<in> set (books s). book_id b \<noteq> B}
   \<and> set (characters (deleteBook B s)) = {c \<in> set (characters s). bookId c \<noteq> B}
   \<and> subseq (books (deleteBook B s)) (books s)
   \<and> subseq (characters (deleteBook B s)) (characters s)
   \<and> ((\<forall>b \<in> set (books s). book_id b \<noteq> B) \<longrightarrow> books (deleteBook B s) = books s)"
proof -
  have "(\<forall>b \<in> set (books s). book_id b \<noteq> B) \<longrightarrow> filter (\<lambda>b. book_id b \<noteq> B) (books s) = books s"
    by (simp add: filter_id_conv)
  then show ?thesis
    unfolding deleteBook_books deleteBook_characters by auto
qed

text \<open>
  The scenario of the specification: with the book Dune (id 1), the book Emma (id 2)
  and the character Paul of Dune, deleting the id 1 leaves Emma and no character;
  deleting the id 3, which no book has, leaves the books as they are.
\<close>

theorem deleteBook_cascade_witness:
  "list_all (\<lambda>b. book_id b \<noteq> Num 3) [dune, emma]
   \<and> books (deleteBook (Num 3) \<lparr>books = [dune, emma], characters = [paul]\<rparr>)
       = [dune, emma]
   \<and> list_all (\<lambda>c. bookId c \<noteq> Num 1)
        (characters (deleteBook (Num 1) \<lparr>books = [dune, emma], characters = [paul]\<rparr>))
   \<and> list_all (\<lambda>b. book_id b \<noteq> Num 1)
        (books (deleteBook (Num 1) \<lparr>books = [dune, emma], characters = [paul]\<rparr>))"
proof -
  let ?s = "\<lparr>books = [dune, emma], characters = [paul]\<rparr>"
  have absent: "\<forall>b \<in> set (books ?s). book_id b \<noteq> Num 3"
    by (simp add: bookData_def)
  have "books (deleteBook (Num 3) ?s) = books ?s"
    using deleteBook_cascade [of "Num 3" ?s] absent by blast
  moreover have "\<forall>c \<in> set (characters (deleteBook (Num 1) ?s)). bookId c \<noteq> Num 1"
    using deleteBook_cascade [of "Num 1" ?s] by blast
  moreover have "\<forall>b \<in> set (books (deleteBook (Num 1) ?s)). book_id b \<noteq> Num 1"
    using deleteBook_cascade [of "Num 1" ?s] by blast
  ultimately show ?thesis
    using absent by (simp add: list_all_iff)
qed

section \<open>Adding a book\<close>

text \<open>
  Claim C2, amended. For every input and every store, \<open>addBook\<close> appends one
  record after the former books and leaves the characters as they are; the record
  appended has the title, author, coverImage, readStatus and notes of the input, and
  the reading of the clock as its id. When no book of the collection has that reading
  as its id, the id of the appended record is the id of no former book, the lookup by
  it gives the appended record, and ids that were pairwise different stay so. (The id
  is the reading of the clock and nothing else: see the counterexample.)
\<close>

theorem addBook_lookup:
  "books (addBook now book s) = books s @ [book\<lparr>book_id := Num now\<rparr>]
   \<and> characters (addBook now book s) = characters s
   \<and> title (last (books (addBook now book s))) = title book
   \<and> author (last (books (addBook now book s))) = author book
   \<and> coverImage (last (books (addBook now book s))) = coverImage book
   \<and> readStatus (last (books (addBook now book s))) = readStatus book
   \<and> book_notes (last (books (addBook now book s))) = book_notes book
   \<and> book_id (last (books (addBook now book s))) = Num now
   \<and> ((\<forall>b \<in> set (books s). book_id b \<noteq> Num now) \<longrightarrow>
         book_id (last (books (addBook now book s))) \<notin> book_id ` set (books s)
         \<and> find (\<lambda>b. book_id b = book_id (last (books (addBook now book s))))
                (books (addBook now book s))
             = Some (last (books (addBook now book s)))
         \<and> (distinct (map book_id (books s))
              \<longrightarrow> distinct (map book_id (books (addBook now book s)))))"
proof -
  have app: "books (addBook now book s) = books s @ [book\<lparr>book_id := Num now\<rparr>]"
    by (simp add: addBook_def)
  have new: "last (books (addBook now book s)) = book\<lparr>book_id := Num now\<rparr>"
    by (simp add: app)
  have chars: "characters (addBook now book s) = characters s"
    by (simp add: addBook_def)
  have lookup: "find (\<lambda>b. book_id b = Num now) (books s @ [book\<lparr>book_id := Num now\<rparr>])
                  = Some (book\<lparr>book_id := Num now\<rparr>)"
    if "\<forall>b \<in> set (books s). book_id b \<noteq> Num now"
    using that by (intro find_snoc_fresh) simp_all
  have fresh: "Num now \<notin> book_id ` set (books s)"
    if "\<forall>b \<in> set (books s). book_id b \<noteq> Num now"
    using that by auto
  show ?thesis
    unfolding new
    by (simp add: app chars lookup fresh)
qed

text \<open>
  Dune has the id 1 and the clock reads 2: the book A by B is appended after Dune
  with the id 2, and the lookup by the id 2 gives it.
\<close>

theorem addBook_lookup_witness:
  "list_all (\<lambda>b. book_id b \<noteq> Num 2) [dune]
   \<and> books (addBook 2 (bookData None ''A'' ''B'' [] ''To Read'' [])
        \<lparr>books = [dune], characters = []\<rparr>)
      = [dune,
         \<lparr>book_id = Num 2, title = Str ''A'', author = Str ''B'', coverImage = Str [],
           readStatus = Str ''To Read'', book_notes = Str []\<rparr>]
   \<and> find (\<lambda>b. book_id b = Num 2)
        (books (addBook 2 (bookData None ''A'' ''B'' [] ''To Read'' [])
           \<lparr>books = [dune], characters = []\<rparr>))
      = Some \<lparr>book_id = Num 2, title = Str ''A'', author = Str ''B'', coverImage = Str [],
              readStatus = Str ''To Read'', book_notes = Str []\<rparr>"
proof -
  let ?s = "\<lparr>books = [dune], characters = []\<rparr>"
  let ?b = "bookData None ''A'' ''B'' [] ''To Read'' []"
  have absent: "\<forall>b \<in> set (books ?s). book_id b \<noteq> Num 2"
    by (simp add: bookData_def)
  have app: "books (addBook 2 ?b ?s) = books ?s @ [?b\<lparr>book_id := Num 2\<rparr>]"
    using addBook_lookup [where now = 2 and book = ?b and s = ?s] by blast
  have "find (\<lambda>b. book_id b = book_id (last (books (addBook 2 ?b ?s)))) (books (addBook 2 ?b ?s))
          = Some (last (books (addBook 2 ?b ?s)))"
    using addBook_lookup [where now = 2 and book = ?b and s = ?s] absent by blast
  then have "find (\<lambda>b. book_id b = Num 2) (books (addBook 2 ?b ?s))
               = Some (?b\<lparr>book_id := Num 2\<rparr>)"
    by (simp add: app)
  with app absent show ?thesis
    by (simp add: bookData_def)
qed

text \<open>
  The claim as it stands fails when the clock reads the id of a book of the
  collection (two additions in one millisecond, a clock set back, an id of the
  persisted data): with Dune of id 1 stored, adding Emma at the reading 1 stores Emma
  with the id 1 too, and the lookup by that id gives Dune.
\<close>

theorem addBook_fresh_id_counterexample:
  "books (addBook 1 (bookData None ''Emma'' ''Austen'' [] [] [])
            \<lparr>books = [dune], characters = []\<rparr>)
     = [dune, (bookData None ''Emma'' ''Austen'' [] [] [])\<lparr>book_id := Num 1\<rparr>]
   \<and> book_id ((bookData None ''Emma'' ''Austen'' [] [] [])\<lparr>book_id := Num 1\<rparr>)
       = book_id dune
   \<and> find (\<lambda>b. book_id b = Num 1)
        (books (addBook 1 (bookData None ''Emma'' ''Austen'' [] [] [])
                  \<lparr>books = [dune], characters = []\<rparr>))
       = Some dune
   \<and> dune \<noteq> (bookData None ''Emma'' ''Austen'' [] [] [])\<lparr>book_id := Num 1\<rparr>"
  by (simp add: addBook_def bookData_def)

section \<open>Loading the persisted collections\<close>

lemma error_is_SyntaxError: "(e::error) = SyntaxError"
  by (cases e) simp

lemma load_books_result:
  "load_books parse sb s =
     (if parse_raises parse sb then (s, Some SyntaxError)
      else (s\<lparr>books := persisted_contents parse sb\<rparr>, None))"
  by (auto simp: load_books_def parse_raises_def persisted_contents_def error_is_SyntaxError
           split: option.splits sum.splits parsed.splits)

lemma load_characters_result:
  "load_characters parse sc s =
     (if parse_raises parse sc then (s, Some SyntaxError)
      else (s\<lparr>characters := persisted_contents parse sc\<rparr>, None))"
  by (auto simp: load_characters_def parse_raises_def persisted_contents_def error_is_SyntaxError
           split: option.splits sum.splits parsed.splits)

text \<open>
  Claim C3, amended. The load never lets an exception out. When neither payload makes
  \<^verbatim>\<open>JSON.parse\<close> raise, each collection is loaded on its own: it gets its persisted
  contents, or is empty when its payload is absent or is not a list, whatever the
  other payload is. When either payload makes \<^verbatim>\<open>JSON.parse\<close> raise, both collections
  are empty.
\<close>

theorem load_degrades:
  "DataProvider_load parseB parseC sb sc s =
     Inr (if parse_raises parseB sb \<or> parse_raises parseC sc
          then \<lparr>books = [], characters = []\<rparr>
          else \<lparr>books = persisted_contents parseB sb,
                characters = persisted_contents parseC sc\<rparr>)"
  by (simp add: DataProvider_load_def load_books_result load_characters_result)

text \<open>
  The books' payload is an object, not a list, and the key of the characters holds
  Paul: the books are empty and Paul is loaded.
\<close>

theorem load_degrades_witness:
  "DataProvider_load
      (\<lambda>str. if str = ''{}'' then Inr NotArray else Inl SyntaxError)
      (\<lambda>str. if str = paul_json then Inr (IsArray [paul]) else Inl SyntaxError)
      (Some ''{}'') (Some paul_json) initial_store
     = Inr \<lparr>books = [], characters = [paul]\<rparr>"
  using load_degrades
    [of "\<lambda>str. if str = ''{}'' then Inr NotArray else Inl SyntaxError"
        "\<lambda>str. if str = paul_json then Inr (IsArray [paul]) else Inl SyntaxError"
        "Some ''{}''" "Some paul_json" initial_store]
  by (simp add: parse_raises_def persisted_contents_def)

text \<open>
  The claim as it stands fails when a payload does not parse: with the text \<^verbatim>\<open>{\<close>
  under the key of the books and Paul under the key of the characters, the persisted
  contents of the characters are Paul, and the load leaves no character.
\<close>

theorem load_one_collection_counterexample:
  "persisted_contents
      (\<lambda>str. if str = paul_json then Inr (IsArray [paul]) else Inl SyntaxError)
      (Some paul_json)
     = [paul]
   \<and> DataProvider_load
      (\<lambda>str. if str = ''[]'' then Inr (IsArray []) else Inl SyntaxError)
      (\<lambda>str. if str = paul_json then Inr (IsArray [paul]) else Inl SyntaxError)
      (Some ''{'') (Some paul_json) initial_store
     = Inr \<lparr>books = [], characters = []\<rparr>"
  by (simp add: DataProvider_load_def load_books_def persisted_contents_def initial_store_def)

section \<open>Updating a character\<close>

text \<open>
  Claim C4, amended. \<open>updateCharacter\<close> puts the payload in the place of every
  record that has the payload's id: the ids of the collection stay as they are, place
  by place, and a record with that id is the payload afterwards, so its bookId is the
  one the payload carries. The bookIds stay as they are when the payload carries the
  bookId of the records it replaces. The books are not touched.
\<close>

theorem updateCharacter_replaces:
  "map char_id (characters (updateCharacter u s)) = map char_id (characters s)
   \<and> (\<forall>c' \<in> set (characters (updateCharacter u s)). char_id c' = char_id u \<longrightarrow> c' = u)
   \<and> ((\<forall>c \<in> set (characters s). char_id c = char_id u \<longrightarrow> bookId c = bookId u)
        \<longrightarrow> map bookId (characters (updateCharacter u s)) = map bookId (characters s))
   \<and> books (updateCharacter u s) = books s"
  by (auto simp: updateCharacter_def)

theorem updateCharacter_replaces_witness:
  "list_all (\<lambda>c. char_id c = Num 4 \<and> bookId c = Num 1) [paul]
   \<and> map bookId (characters (updateCharacter
        ((characterData None ''Paul Atreides'' [] ''Caladan'' [] [] [] (Num 1))\<lparr>char_id := Num 4\<rparr>)
        \<lparr>books = [], characters = [paul]\<rparr>))
      = [Num 1]
   \<and> list_all
        (\<lambda>c'. c' = (characterData None ''Paul Atreides'' [] ''Caladan'' [] [] [] (Num 1))
                     \<lparr>char_id := Num 4\<rparr>)
        (characters (updateCharacter
           ((characterData None ''Paul Atreides'' [] ''Caladan'' [] [] [] (Num 1))\<lparr>char_id := Num 4\<rparr>)
           \<lparr>books = [], characters = [paul]\<rparr>))"
  using updateCharacter_replaces
    [of "(characterData None ''Paul Atreides'' [] ''Caladan'' [] [] [] (Num 1))\<lparr>char_id := Num 4\<rparr>"
        "\<lparr>books = [], characters = [paul]\<rparr>"]
  by (simp add: characterData_def updateCharacter_def)

text \<open>
  The claim as it stands fails for a payload with another bookId: Paul (id 4) of the
  book 1, updated with a payload of id 4 and bookId 2, is a character of the book 2.
\<close>

theorem updateCharacter_bookId_counterexample:
  "char_id ((characterData None ''Paul'' [] [] [] [] [] (Num 2))\<lparr>char_id := Num 4\<rparr>)
     = char_id paul
   \<and> map bookId (characters (updateCharacter
        ((characterData None ''Paul'' [] [] [] [] [] (Num 2))\<lparr>char_id := Num 4\<rparr>)
        \<lparr>books = [], characters = [paul]\<rparr>))
      = [Num 2]
   \<and> map bookId [paul] = [Num 1]"
  by (simp add: characterData_def updateCharacter_def)

section \<open>Updating a record that is not there\<close>

text \<open>
  Claim C5. When no book has the id of the payload, \<open>updateBook\<close> returns the store
  it was given, books and characters; when no character has the id of the payload,
  so does \<open>updateCharacter\<close>.
\<close>

theorem update_missing_id_noop:
  "((\<forall>b \<in> set (books s). book_id b \<noteq> book_id ub) \<longrightarrow> updateBook ub s = s)
   \<and> ((\<forall>c \<in> set (characters s). char_id c \<noteq> char_id uc) \<longrightarrow> updateCharacter uc s = s)"
  by (simp add: updateBook_def updateCharacter_def map_replace_absent)

theorem update_missing_id_noop_witness:
  "list_all (\<lambda>b. book_id b \<noteq> Num 9) [dune]
   \<and> updateBook ((bookData None ''Emma'' ''Austen'' [] [] [])\<lparr>book_id := Num 9\<rparr>) \<lparr>books = [dune], characters = [paul]\<rparr>
      = \<lparr>books = [dune], characters = [paul]\<rparr>
   \<and> list_all (\<lambda>c. char_id c \<noteq> Num 9) [paul]
   \<and> updateCharacter ((characterData None ''Jessica'' [] [] [] [] [] (Num 1))\<lparr>char_id := Num 9\<rparr>)
        \<lparr>books = [dune], characters = [paul]\<rparr>
      = \<lparr>books = [dune], characters = [paul]\<rparr>"
  using update_missing_id_noop
    [of "\<lparr>books = [dune], characters = [paul]\<rparr>"
        "(bookData None ''Emma'' ''Austen'' [] [] [])\<lparr>book_id := Num 9\<rparr>"
        "(characterData None ''Jessica'' [] [] [] [] [] (Num 1))\<lparr>char_id := Num 9\<rparr>"]
  by (simp add: bookData_def characterData_def)

section \<open>Navigation\<close>

text \<open>
  Claim C6. \<open>navigate\<close> is total. Whatever the state before, the view is the target
  view, and each selection is the argument supplied, or null when the argument is
  undefined or null (\<open>or_none\<close>); the state before has no part in the result, so two
  transitions with the same arguments end in the same state, and a transition with
  no ids ends with both selections null.
\<close>

theorem navigate_total:
  "view (navigate t b c n) = t
   \<and> selectedBookId (navigate t b c n) = or_none b
   \<and> selectedCharacterId (navigate t b c n) = or_none c
   \<and> navigate t b c n = navigate t b c n'
   \<and> navigate t Undefined Undefined n
       = \<lparr>view = t, selectedBookId = Null, selectedCharacterId = Null\<rparr>"
  by (simp add: navigate_def default_null_def or_none_def)

theorem navigate_total_witness:
  "navigate ''books'' Undefined Undefined
      \<lparr>view = ''viewCharacter'', selectedBookId = Num 1, selectedCharacterId = Num 4\<rparr>
     = initial_nav
   \<and> navigate ''viewBook'' (Num 1) Undefined
      \<lparr>view = ''viewCharacter'', selectedBookId = Num 2, selectedCharacterId = Num 4\<rparr>
     = \<lparr>view = ''viewBook'', selectedBookId = Num 1, selectedCharacterId = Null\<rparr>"
proof -
  have "navigate ''viewBook'' (Num 1) Undefined
          \<lparr>view = ''viewCharacter'', selectedBookId = Num 2, selectedCharacterId = Num 4\<rparr>
        = \<lparr>view = ''viewBook'', selectedBookId = or_none (Num 1),
            selectedCharacterId = or_none Undefined\<rparr>"
    using navigate_total
      [of "''viewBook''" "Num 1" Undefined
          "\<lparr>view = ''viewCharacter'', selectedBookId = Num 2, selectedCharacterId = Num 4\<rparr>"]
    by (simp add: navigate_def)
  moreover have "navigate ''books'' Undefined Undefined
      \<lparr>view = ''viewCharacter'', selectedBookId = Num 1, selectedCharacterId = Num 4\<rparr>
     = initial_nav"
    using navigate_total
      [of "''books''" Undefined Undefined
          "\<lparr>view = ''viewCharacter'', selectedBookId = Num 1, selectedCharacterId = Num 4\<rparr>"]
    by (simp add: initial_nav_def)
  ultimately show ?thesis by (simp add: or_none_def)
qed

section \<open>The fallback of the renderer\<close>

text \<open>
  Claim C7. In the views \<open>viewBook\<close> and \<open>editBook\<close>, when no book has the selected
  book id, and in the views \<open>viewCharacter\<close> and \<open>editCharacter\<close>, when no character
  has the selected character id, \<open>renderView\<close> gives what the view \<open>books\<close> gives:
  the list of all books. The view \<open>addBook\<close> gives the empty form whatever is
  selected.
\<close>

theorem renderView_fallback:
  "((view n = ''viewBook'' \<or> view n = ''editBook'')
       \<and> (\<forall>b \<in> set (books s). book_id b \<noteq> selectedBookId n)
     \<longrightarrow> renderView n s = BookList Null ''My Books'')
   \<and> ((view n = ''viewCharacter'' \<or> view n = ''editCharacter'')
       \<and> (\<forall>c \<in> set (characters s). char_id c \<noteq> selectedCharacterId n)
     \<longrightarrow> renderView n s = BookList Null ''My Books'')
   \<and> (view n = ''addBook'' \<longrightarrow> renderView n s = BookForm None)
   \<and> renderView (n\<lparr>view := ''books''\<rparr>) s = BookList Null ''My Books''"
proof -
  have b: "(\<forall>b \<in> set (books s). book_id b \<noteq> selectedBookId n)
           \<Longrightarrow> find (\<lambda>b. book_id b = selectedBookId n) (books s) = None"
    by (rule find_absent) simp
  have c: "(\<forall>c \<in> set (characters s). char_id c \<noteq> selectedCharacterId n)
           \<Longrightarrow> find (\<lambda>c. char_id c = selectedCharacterId n) (characters s) = None"
    by (rule find_absent) simp
  show ?thesis
    by (auto simp: renderView_def Let_def b c)
qed

theorem renderView_fallback_witness:
  "list_all (\<lambda>b. book_id b \<noteq> Num 7) [dune]
   \<and> renderView \<lparr>view = ''viewBook'', selectedBookId = Num 7, selectedCharacterId = Null\<rparr>
        \<lparr>books = [dune], characters = []\<rparr>
      = BookList Null ''My Books''
   \<and> renderView \<lparr>view = ''editCharacter'', selectedBookId = Num 1, selectedCharacterId = Num 4\<rparr>
        \<lparr>books = [dune], characters = []\<rparr>
      = BookList Null ''My Books''
   \<and> renderView \<lparr>view = ''addBook'', selectedBookId = Null, selectedCharacterId = Null\<rparr>
        \<lparr>books = [dune], characters = []\<rparr>
      = BookForm None"
  using renderView_fallback
    [of "\<lparr>view = ''viewBook'', selectedBookId = Num 7, selectedCharacterId = Null\<rparr>"
        "\<lparr>books = [dune], characters = []\<rparr>"]
    renderView_fallback
    [of "\<lparr>view = ''editCharacter'', selectedBookId = Num 1, selectedCharacterId = Num 4\<rparr>"
        "\<lparr>books = [dune], characters = []\<rparr>"]
    renderView_fallback
    [of "\<lparr>view = ''addBook'', selectedBookId = Null, selectedCharacterId = Null\<rparr>"
        "\<lparr>books = [dune], characters = []\<rparr>"]
  by (simp add: bookData_def)

section \<open>The order of the collections\<close>

lemma addBook_order:
  "books (addBook now b s) = books s @ [b\<lparr>book_id := Num now\<rparr>]
   \<and> characters (addBook now b s) = characters s"
  by (simp add: addBook_def)

lemma addCharacter_order:
  "characters (addCharacter now c s) = characters s @ [c\<lparr>char_id := Num now\<rparr>]
   \<and> books (addCharacter now c s) = books s"
  by (simp add: addCharacter_def)

lemma updateBook_order:
  "map book_id (books (updateBook ub s)) = map book_id (books s)
   \<and> filter (\<lambda>b. book_id b \<noteq> book_id ub) (books (updateBook ub s))
       = filter (\<lambda>b. book_id b \<noteq> book_id ub) (books s)
   \<and> characters (updateBook ub s) = characters s"
  by (simp add: updateBook_def map_replace_key filter_replace_others)

lemma updateBook_payload:
  "\<forall>b' \<in> set (books (updateBook ub s)). book_id b' = book_id ub \<longrightarrow> b' = ub"
  by (auto simp: updateBook_def)

lemma updateBook_nth:
  "i < length (books s) \<Longrightarrow>
     books (updateBook ub s) ! i
       = (if book_id (books s ! i) = book_id ub then ub else books s ! i)"
  by (simp add: updateBook_def)

lemma updateCharacter_order:
  "map char_id (characters (updateCharacter uc s)) = map char_id (characters s)
   \<and> filter (\<lambda>c. char_id c \<noteq> char_id uc) (characters (updateCharacter uc s))
       = filter (\<lambda>c. char_id c \<noteq> char_id uc) (characters s)
   \<and> books (updateCharacter uc s) = books s"
  by (simp add: updateCharacter_def map_replace_key filter_replace_others)

lemma updateCharacter_payload:
  "\<forall>c' \<in> set (characters (updateCharacter uc s)). char_id c' = char_id uc \<longrightarrow> c' = uc"
  by (auto simp: updateCharacter_def)

lemma updateCharacter_nth:
  "i < length (characters s) \<Longrightarrow>
     characters (updateCharacter uc s) ! i
       = (if char_id (characters s ! i) = char_id uc then uc else characters s ! i)"
  by (simp add: updateCharacter_def)

lemma deleteBook_order:
  "subseq (books (deleteBook i s)) (books s)
   \<and> subseq (characters (deleteBook i s)) (characters s)"
  by (simp add: deleteBook_def)

lemma deleteCharacter_order:
  "subseq (characters (deleteCharacter i s)) (characters s)
   \<and> books (deleteCharacter i s) = books s"
  by (simp add: deleteCharacter_def)

text \<open>
  Claim C8. No operation of the store reorders a collection. An addition puts the new
  record after the former ones and leaves the other collection as it is. An update
  replaces in place: the collection keeps its length, and at every place stands the
  payload when the record there had the payload's id, and the record that stood there
  otherwise; so the id at every place is kept, every record of the result with the
  payload's id is the payload, and the records with another id are kept in their
  order. It leaves the other collection as it is. A deletion leaves a subsequence of
  each collection: the survivors in their former order.
\<close>

theorem store_keeps_insertion_order:
  "(books (addBook now b s) = books s @ [b\<lparr>book_id := Num now\<rparr>]
      \<and> characters (addBook now b s) = characters s)
   \<and> (characters (addCharacter now c s) = characters s @ [c\<lparr>char_id := Num now\<rparr>]
      \<and> books (addCharacter now c s) = books s)
   \<and> (map book_id (books (updateBook ub s)) = map book_id (books s)
      \<and> filter (\<lambda>b. book_id b \<noteq> book_id ub) (books (updateBook ub s))
          = filter (\<lambda>b. book_id b \<noteq> book_id ub) (books s)
      \<and> characters (updateBook ub s) = characters s)
   \<and> (map char_id (characters (updateCharacter uc s)) = map char_id (characters s)
      \<and> filter (\<lambda>c. char_id c \<noteq> char_id uc) (characters (updateCharacter uc s))
          = filter (\<lambda>c. char_id c \<noteq> char_id uc) (characters s)
      \<and> books (updateCharacter uc s) = books s)
   \<and> (subseq (books (deleteBook i s)) (books s)
      \<and> subseq (characters (deleteBook i s)) (characters s))
   \<and> (subseq (characters (deleteCharacter i s)) (characters s)
      \<and> books (deleteCharacter i s) = books s)
   \<and> (length (books (updateBook ub s)) = length (books s)
      \<and> (\<forall>k < length (books s).
            books (updateBook ub s) ! k
              = (if book_id (books s ! k) = book_id ub then ub else books s ! k))
      \<and> (\<forall>b' \<in> set (books (updateBook ub s)). book_id b' = book_id ub \<longrightarrow> b' = ub))
   \<and> (length (characters (updateCharacter uc s)) = length (characters s)
      \<and> (\<forall>k < length (characters s).
            characters (updateCharacter uc s) ! k
              = (if char_id (characters s ! k) = char_id uc then uc else characters s ! k))
      \<and> (\<forall>c' \<in> set (characters (updateCharacter uc s)). char_id c' = char_id uc \<longrightarrow> c' = uc))"
proof -
  have lb: "length (books (updateBook ub s)) = length (books s)"
    by (simp add: updateBook_def)
  have lc: "length (characters (updateCharacter uc s)) = length (characters s)"
    by (simp add: updateCharacter_def)
  show ?thesis
    using addBook_order [of now b s] addCharacter_order [of now c s]
      updateBook_order [of ub s] updateCharacter_order [of uc s]
      deleteBook_order [of i s] deleteCharacter_order [of i s]
      updateBook_payload [of ub s] updateCharacter_payload [of uc s]
      updateBook_nth [of _ s ub] updateCharacter_nth [of _ s uc] lb lc
    by blast
qed

text \<open>
  Dune (id 1) and Emma (id 2) are stored in this order. An update with a payload of
  the id 1 puts the payload in the place of Dune, before Emma; the deletion of Dune
  leaves a subsequence of the two.
\<close>

theorem store_keeps_insertion_order_witness:
  "books (updateBook
       ((bookData None ''Dune'' ''Herbert'' [] ''Read'' [])\<lparr>book_id := Num 1\<rparr>)
       \<lparr>books = [dune, emma], characters = [paul]\<rparr>)
     = [(bookData None ''Dune'' ''Herbert'' [] ''Read'' [])\<lparr>book_id := Num 1\<rparr>, emma]
   \<and> subseq (books (deleteBook (Num 1) \<lparr>books = [dune, emma], characters = [paul]\<rparr>))
        [dune, emma]"
proof -
  let ?s = "\<lparr>books = [dune, emma], characters = [paul]\<rparr>"
  let ?u = "(bookData None ''Dune'' ''Herbert'' [] ''Read'' [])\<lparr>book_id := Num 1\<rparr>"
  note inst = store_keeps_insertion_order [where s = ?s and ub = ?u and i = "Num 1"]
  have len: "length (books (updateBook ?u ?s)) = length (books ?s)"
    using inst by blast
  have nth: "\<forall>k < length (books ?s).
               books (updateBook ?u ?s) ! k
                 = (if book_id (books ?s ! k) = book_id ?u then ?u else books ?s ! k)"
    using inst by blast
  have "books (updateBook ?u ?s) ! 0 = ?u"
    using nth by (simp add: bookData_def)
  moreover have "books (updateBook ?u ?s) ! 1 = emma"
    using nth by (simp add: bookData_def)
  moreover have "length (books (updateBook ?u ?s)) = 2"
    using len by simp
  ultimately have "books (updateBook ?u ?s) = [?u, emma]"
    by (simp add: list_eq_iff_nth_eq less_Suc_eq numeral_2_eq_2)
  moreover have "subseq (books (deleteBook (Num 1) ?s)) (books ?s)"
    using inst by blast
  ultimately show ?thesis
    by simp
qed

section \<open>The filtered lists\<close>

text \<open>
  Claim C9. The view \<open>wishlist\<close> is the list of books with the filter status
  "To Read", the view \<open>readBooks\<close> the one with "Read". The list shown for a status
  holds exactly the books of the collection whose readStatus is that status, in the
  order of the collection. A book added with the readStatus "To Read" is in the first
  list and not in the second.
\<close>

theorem filteredBooks_by_status:
  "renderView (n\<lparr>view := ''wishlist''\<rparr>) s = BookList (Str ''To Read'') ''My Wishlist''
   \<and> renderView (n\<lparr>view := ''readBooks''\<rparr>) s = BookList (Str ''Read'') ''Books Read''
   \<and> set (filteredBooks (Str ''To Read'') bs) = {b \<in> set bs. readStatus b = Str ''To Read''}
   \<and> set (filteredBooks (Str ''Read'') bs) = {b \<in> set bs. readStatus b = Str ''Read''}
   \<and> subseq (filteredBooks (Str ''To Read'') bs) bs
   \<and> subseq (filteredBooks (Str ''Read'') bs) bs
   \<and> b\<lparr>book_id := Num now, readStatus := Str ''To Read''\<rparr>
        \<in> set (filteredBooks (Str ''To Read'')
                 (books (addBook now (b\<lparr>readStatus := Str ''To Read''\<rparr>) s)))
   \<and> b\<lparr>book_id := Num now, readStatus := Str ''To Read''\<rparr>
        \<notin> set (filteredBooks (Str ''Read'')
                 (books (addBook now (b\<lparr>readStatus := Str ''To Read''\<rparr>) s)))"
  by (auto simp: renderView_def filteredBooks_def addBook_def)

text \<open>
  The scenario of the specification: the book A by B with the status "To Read",
  added at the reading 3 to the empty store.
\<close>

theorem filteredBooks_by_status_witness:
  "\<lparr>book_id = Num 3, title = Str ''A'', author = Str ''B'', coverImage = Str [],
     readStatus = Str ''To Read'', book_notes = Str []\<rparr>
     \<in> set (filteredBooks (Str ''To Read'')
              (books (addBook 3 (bookData None ''A'' ''B'' [] ''To Read'' []) initial_store)))
   \<and> \<lparr>book_id = Num 3, title = Str ''A'', author = Str ''B'', coverImage = Str [],
       readStatus = Str ''To Read'', book_notes = Str []\<rparr>
     \<notin> set (filteredBooks (Str ''Read'')
              (books (addBook 3 (bookData None ''A'' ''B'' [] ''To Read'' []) initial_store)))"
proof -
  let ?b = "bookData None ''A'' ''B'' [] ''To Read'' []"
  have "?b\<lparr>book_id := Num 3, readStatus := Str ''To Read''\<rparr>
          \<in> set (filteredBooks (Str ''To Read'')
                   (books (addBook 3 (?b\<lparr>readStatus := Str ''To Read''\<rparr>) initial_store)))
        \<and> ?b\<lparr>book_id := Num 3, readStatus := Str ''To Read''\<rparr>
          \<notin> set (filteredBooks (Str ''Read'')
                   (books (addBook 3 (?b\<lparr>readStatus := Str ''To Read''\<rparr>) initial_store)))"
    using filteredBooks_by_status [where b = ?b and now = 3 and s = initial_store]
    by blast
  then show ?thesis
    by (simp add: bookData_def)
qed

section \<open>The id of an added record\<close>

text \<open>
  Claim C10. The record \<open>addBook\<close> stores has the reading of the clock as its id,
  and the id of the input has no part in the result: two inputs that differ in their
  id only give the same store. The same holds for \<open>addCharacter\<close>.
\<close>

theorem add_overrides_id:
  "book_id (last (books (addBook now b s))) = Num now
   \<and> addBook now (b\<lparr>book_id := x\<rparr>) s = addBook now b s
   \<and> char_id (last (characters (addCharacter now c s))) = Num now
   \<and> addCharacter now (c\<lparr>char_id := y\<rparr>) s = addCharacter now c s"
  by (simp add: addBook_def addCharacter_def)

text \<open>
  An input built from an existing book carries that book's id, 1; added at the
  reading 5 it is stored with the id 5.
\<close>

theorem add_overrides_id_witness:
  "book_id (bookData (Some dune) ''Dune'' ''Herrick'' [] [] []) = Num 1
   \<and> book_id (last (books (addBook 5 (bookData (Some dune) ''Dune'' ''Herrick'' [] [] [])
                              initial_store)))
       = Num 5
   \<and> char_id (last (characters (addCharacter 5 paul initial_store))) = Num 5"
  using add_overrides_id
    [where now = 5 and b = "bookData (Some dune) ''Dune'' ''Herrick'' [] [] []"
       and s = initial_store and c = "paul"]
  by (simp add: bookData_def)

end
